theory Spec2Isabelle
  imports Main "HOL-Library.Word"
begin

section \<open>The static asset gateway of \<^verbatim>\<open>main.py\<close>\<close>

text \<open>
  The module computes three paths from the directory of the program, checks at startup
  that each of them exists, and serves the index document at the root URL. The checks
  and the handler are embedded here; what the environment decides (the filesystem, the
  number of CPUs, how an exception prints) is a parameter of the model.
\<close>

subsection \<open>Paths\<close>

text \<open>
  A \<^verbatim>\<open>pathlib.Path\<close> of the POSIX flavour: whether it is anchored at the root, and its
  parts. \<^verbatim>\<open>p / "name"\<close> with a plain name appends one part; \<^verbatim>\<open>str(p)\<close> joins the parts
  with a slash, and the relative path without parts prints as a dot.
\<close>

datatype path = Path bool "string list"

fun joinpath :: "path \<Rightarrow> string \<Rightarrow> path" where
  "joinpath (Path anchored parts) name = Path anchored (parts @ [name])"

fun join_parts :: "string list \<Rightarrow> string" where
  "join_parts [] = []"
| "join_parts [c] = c"
| "join_parts (c # d # cs) = c @ ''/'' @ join_parts (d # cs)"

fun str_path :: "path \<Rightarrow> string" where
  "str_path (Path True parts) = ''/'' @ join_parts parts"
| "str_path (Path False []) = ''.''"
| "str_path (Path False (c # cs)) = join_parts (c # cs)"

text \<open>
  \<^verbatim>\<open>BASE_DIR = Path(__file__).parent\<close> is the argument \<open>base\<close> of everything below.
\<close>

definition STATIC_DIR :: "path \<Rightarrow> path" where
  "STATIC_DIR base = joinpath base ''static''"

definition ASSETS_DIR :: "path \<Rightarrow> path" where
  "ASSETS_DIR base = joinpath (STATIC_DIR base) ''assets''"

definition INDEX_PATH :: "path \<Rightarrow> path" where
  "INDEX_PATH base = joinpath (STATIC_DIR base) ''index.html''"

subsection \<open>Exceptions, the log and the environment\<close>

text \<open>
  The exceptions the module raises, and \<open>OSError\<close> for what a filesystem call may raise.
  All of them are subclasses of \<^verbatim>\<open>Exception\<close>.
\<close>

datatype exn = HTTPException nat string | RuntimeError string | OSError string

datatype level = INFO | ERROR | CRITICAL

type_synonym log = "(level \<times> string) list"

type_synonym bytes = "8 word list"

text \<open>
  The environment at the time of a call: \<open>path_exists\<close> is \<^verbatim>\<open>Path.exists()\<close>, which
  answers or raises; \<open>is_dir\<close> is \<^verbatim>\<open>os.path.isdir\<close>, which always answers; \<open>file_bytes\<close>
  is the content of a file that can be read, \<open>None\<close> when reading it fails; \<open>cpu_count\<close>
  is \<^verbatim>\<open>os.cpu_count()\<close>, an integer or \<^verbatim>\<open>None\<close>; \<open>str_exn\<close> is \<^verbatim>\<open>str(e)\<close>.
\<close>

record env =
  path_exists :: "path \<Rightarrow> exn + bool"
  is_dir :: "path \<Rightarrow> bool"
  file_bytes :: "path \<Rightarrow> bytes option"
  cpu_count :: "nat option"
  str_exn :: "exn \<Rightarrow> string"

fun string_of_nat :: "nat \<Rightarrow> string" where
  "string_of_nat n =
     (if n < 10 then [''0123456789'' ! n]
      else string_of_nat (n div 10) @ [''0123456789'' ! (n mod 10)])"

declare string_of_nat.simps [simp del]

fun str_cpu_count :: "nat option \<Rightarrow> string" where
  "str_cpu_count None = ''None''"
| "str_cpu_count (Some n) = string_of_nat n"

subsection \<open>The startup check\<close>

definition required_paths :: "path \<Rightarrow> path list" where
  "required_paths base = [STATIC_DIR base, ASSETS_DIR base, INDEX_PATH base]"

text \<open>
  The loop of \<^verbatim>\<open>verify_paths\<close> over the paths still to check: it returns \<^verbatim>\<open>False\<close> with
  one error record at the first path that does not exist, \<^verbatim>\<open>True\<close> when the list is
  exhausted, and lets an exception of \<^verbatim>\<open>exists()\<close> through.
\<close>

fun verify_loop :: "env \<Rightarrow> path list \<Rightarrow> (exn + bool) \<times> log" where
  "verify_loop e [] = (Inr True, [])"
| "verify_loop e (p # ps) =
     (case path_exists e p of
        Inl x \<Rightarrow> (Inl x, [])
      | Inr found \<Rightarrow>
          if \<not> found
          then (Inr False, [(ERROR, ''Required path does not exist: '' @ str_path p)])
          else verify_loop e ps)"

definition verify_paths :: "env \<Rightarrow> path \<Rightarrow> (exn + bool) \<times> log" where
  "verify_paths e base = verify_loop e (required_paths base)"

text \<open>
  The lifespan hook up to its \<^verbatim>\<open>yield\<close>: \<open>Inr ()\<close> is reaching the \<^verbatim>\<open>yield\<close>, \<open>Inl\<close> is the
  exception that leaves the hook. The part after the \<^verbatim>\<open>yield\<close> only logs.
\<close>

definition lifespan :: "env \<Rightarrow> path \<Rightarrow> (exn + unit) \<times> log" where
  "lifespan e base =
     (let started = [(INFO, ''Starting up application... '' @ str_cpu_count (cpu_count e))]
      in case verify_paths e base of
           (Inl x, checked) \<Rightarrow> (Inl x, started @ checked)
         | (Inr ok, checked) \<Rightarrow>
             if \<not> ok
             then (Inl (RuntimeError ''Application cannot start: missing required paths''),
                   started @ checked @ [(CRITICAL, ''Required paths are missing!'')])
             else (Inr (), started @ checked))"

definition lifespan_shutdown :: log where
  "lifespan_shutdown = [(INFO, ''Shutting down application...'')]"

text \<open>
  \<^verbatim>\<open>StaticFiles(directory=..., check_dir=True, html=True)\<close>, evaluated when the module is
  imported to mount \<^verbatim>\<open>/assets\<close>: with \<^verbatim>\<open>check_dir\<close> set, the constructor raises a
  \<^verbatim>\<open>RuntimeError\<close> unless the directory is a directory.
\<close>

definition StaticFiles :: "env \<Rightarrow> path \<Rightarrow> exn + path" where
  "StaticFiles e directory =
     (if \<not> is_dir e directory
      then Inl (RuntimeError (''Directory '' @ [CHR 0x27] @ str_path directory @ [CHR 0x27]
                               @ '' does not exist''))
      else Inr directory)"

text \<open>
  The start of the process, as the server that hosts the application drives it: the
  module is imported, which mounts the assets directory; then the lifespan hook runs;
  the listener is opened once the hook has reached its \<^verbatim>\<open>yield\<close>. An exception at either
  step ends the start without a listener.
\<close>

datatype server = Listening | NoListener exn

definition startup :: "env \<Rightarrow> path \<Rightarrow> server \<times> log" where
  "startup e base =
     (case StaticFiles e (ASSETS_DIR base) of
        Inl x \<Rightarrow> (NoListener x, [])
      | Inr mounted \<Rightarrow>
          (case lifespan e base of
             (Inl x, logged) \<Rightarrow> (NoListener x, logged)
           | (Inr u, logged) \<Rightarrow> (Listening, logged)))"

subsection \<open>The handler of the root URL\<close>

text \<open>
  \<^verbatim>\<open>FileResponse(path, media_type=...)\<close> is built with the status code 200 and reads
  nothing; the framework sends the file at \<open>resp_path\<close> once the handler has returned.
\<close>

record response =
  resp_path :: path
  status_code :: nat
  media_type :: string

definition FileResponse :: "path \<Rightarrow> string \<Rightarrow> response" where
  "FileResponse p mt = \<lparr>resp_path = p, status_code = 200, media_type = mt\<rparr>"


text \<open>The body of the \<^verbatim>\<open>try\<close> block of \<^verbatim>\<open>read_index\<close>.\<close>

definition read_index_try :: "env \<Rightarrow> path \<Rightarrow> exn + response" where
  "read_index_try e base =
     (case path_exists e (INDEX_PATH base) of
        Inl x \<Rightarrow> Inl x
      | Inr found \<Rightarrow>
          if \<not> found then Inl (HTTPException 404 ''Index file not found'')
          else Inr (FileResponse (INDEX_PATH base) ''text/html''))"

text \<open>
  \<^verbatim>\<open>except Exception as e\<close> handles every exception of the block, the
  \<^verbatim>\<open>HTTPException\<close> raised in it included.
\<close>

definition read_index :: "env \<Rightarrow> path \<Rightarrow> (exn + response) \<times> log" where
  "read_index e base =
     (case read_index_try e base of
        Inl x \<Rightarrow>
          (Inl (HTTPException 500 ''Internal server error''),
           [(ERROR, ''Error serving index.html: '' @ str_exn e x)])
      | Inr r \<Rightarrow> (Inr r, []))"

subsection \<open>Concrete environments\<close>

text \<open>
  A program installed in \<^verbatim>\<open>/app\<close>, on a machine with four CPUs, where an
  \<^verbatim>\<open>HTTPException\<close> prints as its status and detail and the others as their message.
\<close>

definition app_dir :: path where
  "app_dir = Path True [''app'']"

fun print_exn :: "exn \<Rightarrow> string" where
  "print_exn (HTTPException c d) = string_of_nat c @ '': '' @ d"
| "print_exn (RuntimeError m) = m"
| "print_exn (OSError m) = m"

definition env_of :: "(path \<Rightarrow> exn + bool) \<Rightarrow> env" where
  "env_of ex = \<lparr>path_exists = ex,
                is_dir = (\<lambda>p. ex p = Inr True \<and> p \<noteq> INDEX_PATH app_dir),
                file_bytes = (\<lambda>p. if ex p = Inr True then Some [60, 104, 49, 62] else None),
                cpu_count = Some 4, str_exn = print_exn\<rparr>"

text \<open>Every path exists.\<close>

definition env_complete :: env where
  "env_complete = env_of (\<lambda>p. Inr True)"

text \<open>Every path exists but the index document.\<close>

definition env_no_index :: env where
  "env_no_index = env_of (\<lambda>p. Inr (p \<noteq> INDEX_PATH app_dir))"

text \<open>The static root exists; the assets directory and the index document do not.\<close>

definition env_only_static :: env where
  "env_only_static = env_of (\<lambda>p. Inr (p = STATIC_DIR app_dir))"

text \<open>Nothing exists.\<close>

definition env_empty :: env where
  "env_empty = env_of (\<lambda>p. Inr False)"

text \<open>The check of the index document is refused by the operating system.\<close>

definition env_denied :: env where
  "env_denied = env_of (\<lambda>p. if p = INDEX_PATH app_dir then Inl (OSError ''Permission denied'') else Inr True)"

text \<open>Every path exists, and \<^verbatim>\<open>static/assets\<close> is a regular file.\<close>

definition env_assets_file :: env where
  "env_assets_file = (env_of (\<lambda>p. Inr True))\<lparr>is_dir := (\<lambda>p. p = STATIC_DIR app_dir)\<rparr>"

text \<open>Every path exists, and the index document cannot be read.\<close>

definition env_unreadable :: env where
  "env_unreadable = (env_of (\<lambda>p. Inr True))\<lparr>file_bytes := (\<lambda>p. None)\<rparr>"

section \<open>Properties\<close>

lemmas path_defs = required_paths_def STATIC_DIR_def ASSETS_DIR_def INDEX_PATH_def

lemmas env_defs = env_of_def env_complete_def env_no_index_def env_only_static_def
  env_empty_def env_denied_def env_assets_file_def env_unreadable_def app_dir_def

subsection \<open>The startup check\<close>

lemma verify_three:
  "verify_paths e base =
     verify_loop e [STATIC_DIR base, ASSETS_DIR base, INDEX_PATH base]"
  by (simp add: verify_paths_def required_paths_def)

lemma verify_paths_True_iff:
  "(fst (verify_paths e base) = Inr True) =
     (path_exists e (STATIC_DIR base) = Inr True \<and> path_exists e (ASSETS_DIR base) = Inr True
      \<and> path_exists e (INDEX_PATH base) = Inr True)"
  by (auto simp: verify_three split: sum.splits if_splits)

lemma verify_loop_False:
  "fst (verify_loop e ps) = Inr False \<Longrightarrow>
     \<exists>p \<in> set ps. path_exists e p = Inr False
        \<and> snd (verify_loop e ps) = [(ERROR, ''Required path does not exist: '' @ str_path p)]"
  by (induction ps) (auto split: sum.splits if_splits)

lemma verify_no_index:
  "verify_paths env_no_index app_dir =
     (Inr False, [(ERROR, ''Required path does not exist: /app/static/index.html'')])"
  by (simp add: verify_three env_defs path_defs)

lemma lifespan_fst:
  "fst (lifespan e base) =
     (case fst (verify_paths e base) of
        Inl x \<Rightarrow> Inl x
      | Inr ok \<Rightarrow> if ok then Inr ()
                  else Inl (RuntimeError ''Application cannot start: missing required paths''))"
  by (cases "verify_paths e base") (simp add: lifespan_def Let_def split: sum.splits)

text \<open>
  C10: \<open>verify_paths\<close> checks the static root, then the assets directory, then the index
  file, and stops at the first one that does not exist: it returns \<^verbatim>\<open>False\<close> and logs
  that path alone, whatever the later paths are. It returns \<^verbatim>\<open>True\<close> exactly when all
  three exist, and then logs nothing.
\<close>

theorem verify_paths_short_circuit:
  "(path_exists e (STATIC_DIR base) = Inr False \<longrightarrow>
      verify_paths e base =
        (Inr False, [(ERROR, ''Required path does not exist: '' @ str_path (STATIC_DIR base))]))
   \<and> (path_exists e (STATIC_DIR base) = Inr True \<and> path_exists e (ASSETS_DIR base) = Inr False \<longrightarrow>
      verify_paths e base =
        (Inr False, [(ERROR, ''Required path does not exist: '' @ str_path (ASSETS_DIR base))]))
   \<and> (path_exists e (STATIC_DIR base) = Inr True \<and> path_exists e (ASSETS_DIR base) = Inr True
        \<and> path_exists e (INDEX_PATH base) = Inr False \<longrightarrow>
      verify_paths e base =
        (Inr False, [(ERROR, ''Required path does not exist: '' @ str_path (INDEX_PATH base))]))
   \<and> ((fst (verify_paths e base) = Inr True) =
        (path_exists e (STATIC_DIR base) = Inr True \<and> path_exists e (ASSETS_DIR base) = Inr True
         \<and> path_exists e (INDEX_PATH base) = Inr True))
   \<and> (fst (verify_paths e base) = Inr True \<longrightarrow> snd (verify_paths e base) = [])"
  by (auto simp: verify_three split: sum.splits if_splits)

theorem verify_paths_short_circuit_witness:
  "verify_paths env_empty app_dir =
     (Inr False, [(ERROR, ''Required path does not exist: /app/static'')])
   \<and> verify_paths env_only_static app_dir =
     (Inr False, [(ERROR, ''Required path does not exist: /app/static/assets'')])
   \<and> verify_paths env_no_index app_dir =
     (Inr False, [(ERROR, ''Required path does not exist: /app/static/index.html'')])
   \<and> fst (verify_paths env_complete app_dir) = Inr True
   \<and> snd (verify_paths env_complete app_dir) = []"
proof -
  have a: "path_exists env_empty (STATIC_DIR app_dir) = Inr False"
    by (simp add: env_defs)
  have b: "path_exists env_only_static (STATIC_DIR app_dir) = Inr True
           \<and> path_exists env_only_static (ASSETS_DIR app_dir) = Inr False"
    by (simp add: env_defs path_defs)
  have c: "path_exists env_no_index (STATIC_DIR app_dir) = Inr True
           \<and> path_exists env_no_index (ASSETS_DIR app_dir) = Inr True
           \<and> path_exists env_no_index (INDEX_PATH app_dir) = Inr False"
    by (simp add: env_defs path_defs)
  have d: "path_exists env_complete (STATIC_DIR app_dir) = Inr True
           \<and> path_exists env_complete (ASSETS_DIR app_dir) = Inr True
           \<and> path_exists env_complete (INDEX_PATH app_dir) = Inr True"
    by (simp add: env_defs)
  from a verify_paths_short_circuit [of env_empty app_dir]
  have "verify_paths env_empty app_dir =
     (Inr False, [(ERROR, ''Required path does not exist: '' @ str_path (STATIC_DIR app_dir))])"
    by blast
  moreover from b verify_paths_short_circuit [of env_only_static app_dir]
  have "verify_paths env_only_static app_dir =
     (Inr False, [(ERROR, ''Required path does not exist: '' @ str_path (ASSETS_DIR app_dir))])"
    by blast
  moreover from c verify_paths_short_circuit [of env_no_index app_dir]
  have "verify_paths env_no_index app_dir =
     (Inr False, [(ERROR, ''Required path does not exist: '' @ str_path (INDEX_PATH app_dir))])"
    by blast
  moreover from d verify_paths_short_circuit [of env_complete app_dir]
  have "fst (verify_paths env_complete app_dir) = Inr True
        \<and> snd (verify_paths env_complete app_dir) = []"
    by blast
  ultimately show ?thesis
    by (simp add: path_defs app_dir_def)
qed

lemma lifespan_yields:
  "(fst (lifespan e base) = Inr ()) =
      (path_exists e (STATIC_DIR base) = Inr True \<and> path_exists e (ASSETS_DIR base) = Inr True
       \<and> path_exists e (INDEX_PATH base) = Inr True)"
  unfolding verify_paths_True_iff [symmetric]
  by (simp add: lifespan_fst split: sum.splits)

lemma startup_fst:
  "fst (startup e base) =
     (if \<not> is_dir e (ASSETS_DIR base)
      then NoListener (RuntimeError (''Directory '' @ [CHR 0x27] @ str_path (ASSETS_DIR base)
                                      @ [CHR 0x27] @ '' does not exist''))
      else case fst (lifespan e base) of Inl x \<Rightarrow> NoListener x | Inr u \<Rightarrow> Listening)"
  by (cases "lifespan e base") (simp add: startup_def StaticFiles_def split: sum.splits)

text \<open>
  C2, as the program has it: the start ends with the listener open if and only if the
  static root, the assets directory and the index file all exist and the assets path is
  a directory, which the mount checks before the lifespan hook runs. Whenever one of the
  three paths is not found, the mount or the hook raises and no listener is opened.
\<close>

theorem startup_listening_iff:
  "((fst (startup e base) = Listening) =
      (is_dir e (ASSETS_DIR base)
       \<and> path_exists e (STATIC_DIR base) = Inr True \<and> path_exists e (ASSETS_DIR base) = Inr True
       \<and> path_exists e (INDEX_PATH base) = Inr True))
   \<and> (\<not> (path_exists e (STATIC_DIR base) = Inr True \<and> path_exists e (ASSETS_DIR base) = Inr True
          \<and> path_exists e (INDEX_PATH base) = Inr True)
       \<longrightarrow> (\<exists>x. fst (startup e base) = NoListener x))"
proof -
  have listening: "(fst (startup e base) = Listening) =
      (is_dir e (ASSETS_DIR base) \<and> fst (lifespan e base) = Inr ())"
    by (simp add: startup_fst split: sum.splits)
  have refused: "fst (lifespan e base) \<noteq> Inr () \<Longrightarrow> \<exists>x. fst (startup e base) = NoListener x"
    by (simp add: startup_fst split: sum.splits)
  from listening refused show ?thesis
    unfolding lifespan_yields by blast
qed

theorem startup_listening_iff_witness:
  "is_dir env_complete (ASSETS_DIR app_dir)
   \<and> fst (startup env_complete app_dir) = Listening
   \<and> path_exists env_no_index (INDEX_PATH app_dir) = Inr False
   \<and> (\<exists>x. fst (startup env_no_index app_dir) = NoListener x)"
proof -
  have dir: "is_dir env_complete (ASSETS_DIR app_dir)"
    by (simp add: env_defs path_defs)
  have ok: "path_exists env_complete (STATIC_DIR app_dir) = Inr True
           \<and> path_exists env_complete (ASSETS_DIR app_dir) = Inr True
           \<and> path_exists env_complete (INDEX_PATH app_dir) = Inr True"
    by (simp add: env_defs)
  have missing: "path_exists env_no_index (INDEX_PATH app_dir) = Inr False"
    by (simp add: env_defs)
  from dir ok startup_listening_iff [of env_complete app_dir]
  have "fst (startup env_complete app_dir) = Listening"
    by blast
  moreover from missing startup_listening_iff [of env_no_index app_dir]
  have "\<exists>x. fst (startup env_no_index app_dir) = NoListener x"
    by simp
  ultimately show ?thesis
    using dir missing by blast
qed

text \<open>
  C2, as stated, fails when the three paths exist and \<^verbatim>\<open>static/assets\<close> is a regular
  file: the hook would reach its \<^verbatim>\<open>yield\<close>, but the mount has raised before it runs and
  no listener is opened.
\<close>

theorem startup_assets_file_counterexample:
  "path_exists env_assets_file (STATIC_DIR app_dir) = Inr True
   \<and> path_exists env_assets_file (ASSETS_DIR app_dir) = Inr True
   \<and> path_exists env_assets_file (INDEX_PATH app_dir) = Inr True
   \<and> fst (lifespan env_assets_file app_dir) = Inr ()
   \<and> startup env_assets_file app_dir =
       (NoListener (RuntimeError (''Directory '' @ [CHR 0x27] @ ''/app/static/assets''
                                   @ [CHR 0x27] @ '' does not exist'')), [])"
  by (simp add: startup_def StaticFiles_def lifespan_fst verify_three env_defs path_defs)

text \<open>
  C7: when the startup check returns \<^verbatim>\<open>False\<close>, a required path is missing, the log
  holds an error record naming that path, followed by a record of critical severity
  for the configuration error, and the hook raises.
\<close>

theorem lifespan_logs_missing_path:
  assumes "fst (verify_paths e base) = Inr False"
  shows "\<exists>p \<in> set (required_paths base). path_exists e p = Inr False
     \<and> lifespan e base =
         (Inl (RuntimeError ''Application cannot start: missing required paths''),
          [(INFO, ''Starting up application... '' @ str_cpu_count (cpu_count e)),
           (ERROR, ''Required path does not exist: '' @ str_path p),
           (CRITICAL, ''Required paths are missing!'')])"
proof -
  from assms obtain p where p: "p \<in> set (required_paths base)" "path_exists e p = Inr False"
    and l: "snd (verify_paths e base) = [(ERROR, ''Required path does not exist: '' @ str_path p)]"
    unfolding verify_paths_def by (blast dest: verify_loop_False)
  from assms l have "verify_paths e base =
      (Inr False, [(ERROR, ''Required path does not exist: '' @ str_path p)])"
    by (simp add: prod_eq_iff)
  then have "lifespan e base =
         (Inl (RuntimeError ''Application cannot start: missing required paths''),
          [(INFO, ''Starting up application... '' @ str_cpu_count (cpu_count e)),
           (ERROR, ''Required path does not exist: '' @ str_path p),
           (CRITICAL, ''Required paths are missing!'')])"
    by (simp add: lifespan_def)
  with p show ?thesis by blast
qed

theorem lifespan_logs_missing_path_witness:
  "fst (verify_paths env_no_index app_dir) = Inr False
   \<and> (\<exists>p \<in> set (required_paths app_dir). path_exists env_no_index p = Inr False
     \<and> lifespan env_no_index app_dir =
         (Inl (RuntimeError ''Application cannot start: missing required paths''),
          [(INFO, ''Starting up application... '' @ str_cpu_count (cpu_count env_no_index)),
           (ERROR, ''Required path does not exist: '' @ str_path p),
           (CRITICAL, ''Required paths are missing!'')]))"
proof -
  have h: "fst (verify_paths env_no_index app_dir) = Inr False"
    by (simp add: verify_no_index)
  from lifespan_logs_missing_path [OF h] h show ?thesis
    by blast
qed

subsection \<open>The handler of the root URL\<close>






text \<open>
  C1: the index document is absent when the root URL is requested. The handler raises
  the HTTP error 404 inside its \<^verbatim>\<open>try\<close> block, its own \<^verbatim>\<open>except Exception\<close> clause
  handles that error, and what leaves the handler is the HTTP error 500.
\<close>

theorem read_index_absent_is_500:
  "path_exists env_no_index (INDEX_PATH app_dir) = Inr False
   \<and> read_index_try env_no_index app_dir = Inl (HTTPException 404 ''Index file not found'')
   \<and> read_index env_no_index app_dir =
     (Inl (HTTPException 500 ''Internal server error''),
      [(ERROR, ''Error serving index.html: 404: Index file not found'')])"
  by (simp add: read_index_def read_index_try_def env_defs string_of_nat.simps)

end
